theory Spec2Isabelle
  imports Complex_Main
begin

section \<open>The three client transports of \<open>client/module/Agent/service\<close>\<close>

text \<open>
  The repository has three client classes with one interface (\<open>connect\<close>, \<open>send\<close>,
  \<open>close\<close>): \<open>MQTT\<close> (publish/subscribe, a polled list filled by a listener thread),
  \<open>WebSocket\<close> (blocking \<open>recv\<close> on a socket) and \<open>HTTP\<close> (a generator over the lines of
  a streamed response body). Each class is a record of its attributes; each method takes
  the object and returns the updated object next to its result. Record fields carry the
  class as a prefix (\<open>mqtt_client\<close> is \<open>MQTT.client\<close>, \<open>ws_ws\<close> is \<open>WebSocket.ws\<close>, ...),
  since the three classes share attribute names.

  Everything the libraries (paho-mqtt, websockets, httpx, json, time) do is an explicit
  argument of the method that calls them: the model fixes what the repository's code does
  with each possible answer of the library, not what the library answers.
\<close>

subsection \<open>Exceptions and results\<close>

text \<open>
  The exceptions the code raises itself are \<open>ConnectionError\<close>, \<open>TimeoutError\<close>,
  \<open>TypeError\<close> and \<open>ValueError\<close>; their message strings are left out. \<open>JSONDecodeError\<close>
  is what \<open>json.loads\<close> raises. \<open>LibraryError name\<close> is any other exception that a
  library call raises and that the code lets through unchanged.
\<close>

datatype error =
    ConnectionError
  | TimeoutError
  | TypeError
  | ValueError
  | JSONDecodeError
  | LibraryError string

text \<open>
  \<open>MQTT.send\<close> and \<open>WebSocket.send\<close> return a single decoded message (\<open>return
  self.messages.pop(0)\<close>, \<open>return json.loads(response)\<close>) or the list \<open>results\<close>.
\<close>

datatype 'm reply = Single 'm | Sequence "'m list"

text \<open>
  A call that waits on its environment is run against a finite record of what the
  environment did. Its result is \<open>Some (Inr r)\<close> when it returned \<open>r\<close>, \<open>Some (Inl e)\<close>
  when it raised \<open>e\<close>, and \<open>None\<close> when, at the end of the record, the call is still
  waiting: it has neither returned nor raised.
\<close>

type_synonym 'a outcome = "(error + 'a) option"

text \<open>The connection objects of the libraries are told apart by a number.\<close>

type_synonym handle = nat

subsection \<open>MQTT\<close>

record 'm MQTT =
  mqtt_broker :: string
  mqtt_port :: int
  mqtt_client_id :: "string option"
  mqtt_request_topic :: string
  mqtt_response_topic :: string
  mqtt_callback :: "('m \<Rightarrow> bool) option"
  mqtt_timeout :: real
  mqtt_client :: "handle option"
  mqtt_messages :: "'m list"

text \<open>
  \<open>MQTT.__init__\<close>: stores its arguments, \<open>client = None\<close>, \<open>messages = []\<close>. The lock
  \<open>_lock\<close> has no field: it only makes each append and each check-and-pop atomic, which
  the model's steps are.
\<close>

definition MQTT_init ::
  "string \<Rightarrow> int \<Rightarrow> string option \<Rightarrow> string \<Rightarrow> string \<Rightarrow> ('m \<Rightarrow> bool) option \<Rightarrow> real \<Rightarrow> 'm MQTT"
where
  "MQTT_init broker port client_id request_topic response_topic callback timeout =
     \<lparr>mqtt_broker = broker, mqtt_port = port, mqtt_client_id = client_id,
      mqtt_request_topic = request_topic, mqtt_response_topic = response_topic,
      mqtt_callback = callback, mqtt_timeout = timeout,
      mqtt_client = None, mqtt_messages = []\<rparr>"

text \<open>\<open>MQTT._on_message\<close>, run by the listener thread: append the decoded payload.\<close>

definition MQTT_on_message :: "'m MQTT \<Rightarrow> 'm \<Rightarrow> 'm MQTT" where
  "MQTT_on_message s data = s\<lparr>mqtt_messages := mqtt_messages s @ [data]\<rparr>"

text \<open>
  \<open>MQTT.connect\<close>: \<open>self.client = mqtt.Client(...)\<close> is assigned first; \<open>fresh\<close> is the new
  object. \<open>net\<close> is the exception, if any, of the calls that follow (\<open>connect\<close>,
  \<open>subscribe\<close>, \<open>loop_start\<close>). The method reads no attribute that says whether the
  object is connected.
\<close>

definition MQTT_connect :: "'m MQTT \<Rightarrow> handle \<Rightarrow> error option \<Rightarrow> (error + unit) \<times> 'm MQTT" where
  "MQTT_connect s fresh net =
     (let s' = s\<lparr>mqtt_client := Some fresh\<rparr>
      in case net of
           Some e \<Rightarrow> (Inl e, s')
         | None \<Rightarrow> (Inr (), s'))"

text \<open>
  One iteration of a polling loop of \<open>MQTT.send\<close> sees the messages the listener appended
  since the previous iteration (\<open>poll_arrived\<close>, in order) when it takes the lock, and, if it
  gets that far, reads the clock (\<open>poll_clock\<close>, the value of \<open>time.time()\<close>).

  A clock value is the real number that the float denotes. Python's subtraction of two
  floats rounds its result, so the value of \<open>time.time() - start\<close> is not the difference
  of the two reals: it is \<open>float_sub now start\<close>, with the subtraction \<open>float_sub\<close> of floats
  an argument of the loops. The comparison \<open>> self.timeout\<close> is exact in Python, between
  two floats as between a float and an int, and is the order of the reals.
\<close>

datatype 'm poll = Poll (poll_arrived: "'m list") (poll_clock: real)

text \<open>
  The loop without callback:
  \<^verbatim>\<open>
  while True:
      with self._lock:
          if self.messages:
              return self.messages.pop(0)
      if time.time() - start > self.timeout:
          raise TimeoutError(...)
      time.sleep(0.01)
  \<close>
  The second component of the result is \<open>self.messages\<close> when the loop is left.
\<close>

fun poll_single ::
  "(real \<Rightarrow> real \<Rightarrow> real) \<Rightarrow> real \<Rightarrow> real \<Rightarrow> 'm list \<Rightarrow> 'm poll list
   \<Rightarrow> 'm reply outcome \<times> 'm list"
where
  "poll_single float_sub start timeout messages [] = (None, messages)"
| "poll_single float_sub start timeout messages (Poll arrived now # polls) =
     (case messages @ arrived of
        msg # rest \<Rightarrow> (Some (Inr (Single msg)), rest)
      | [] \<Rightarrow>
          if float_sub now start > timeout then (Some (Inl TimeoutError), [])
          else poll_single float_sub start timeout [] polls)"

text \<open>
  The loop with callback:
  \<^verbatim>\<open>
  results = []
  while True:
      with self._lock:
          if self.messages:
              msg = self.messages.pop(0)
              results.append(msg)
              if self.callback(msg):
                  return results
      if time.time() - start > self.timeout:
          raise TimeoutError(...)
      time.sleep(0.01)
  \<close>
  The result is the outcome, the local variable \<open>results\<close> when the loop is left, and
  \<open>self.messages\<close> at that moment. The callback is a function of the message alone.
\<close>

fun poll_stream ::
  "('m \<Rightarrow> bool) \<Rightarrow> (real \<Rightarrow> real \<Rightarrow> real) \<Rightarrow> real \<Rightarrow> real \<Rightarrow> 'm list \<Rightarrow> 'm list
   \<Rightarrow> 'm poll list \<Rightarrow> 'm reply outcome \<times> 'm list \<times> 'm list"
where
  "poll_stream callback float_sub start timeout results messages [] = (None, results, messages)"
| "poll_stream callback float_sub start timeout results messages (Poll arrived now # polls) =
     (case messages @ arrived of
        msg # rest \<Rightarrow>
          if callback msg then (Some (Inr (Sequence (results @ [msg]))), results @ [msg], rest)
          else if float_sub now start > timeout
          then (Some (Inl TimeoutError), results @ [msg], rest)
          else poll_stream callback float_sub start timeout (results @ [msg]) rest polls
      | [] \<Rightarrow>
          if float_sub now start > timeout then (Some (Inl TimeoutError), results, [])
          else poll_stream callback float_sub start timeout results [] polls)"

text \<open>
  \<open>MQTT.send\<close>. \<open>publish data\<close> is the exception, if any, of \<open>json.dumps\<close> and
  \<open>client.publish\<close>; \<open>start\<close> is the clock read after publishing. When the call raises,
  the local \<open>results\<close> is lost with its frame: only the exception and the object remain.
\<close>

definition MQTT_send ::
  "'m MQTT \<Rightarrow> 'm \<Rightarrow> ('m \<Rightarrow> error option) \<Rightarrow> (real \<Rightarrow> real \<Rightarrow> real) \<Rightarrow> real \<Rightarrow> 'm poll list
   \<Rightarrow> 'm reply outcome \<times> 'm MQTT"
where
  "MQTT_send s data publish float_sub start polls =
     (case mqtt_client s of
        None \<Rightarrow> (Some (Inl ConnectionError), s)
      | Some c \<Rightarrow>
          (case publish data of
             Some e \<Rightarrow> (Some (Inl e), s)
           | None \<Rightarrow>
               (case mqtt_callback s of
                  None \<Rightarrow>
                    (case poll_single float_sub start (mqtt_timeout s) (mqtt_messages s) polls of
                       (r, messages) \<Rightarrow> (r, s\<lparr>mqtt_messages := messages\<rparr>))
                | Some callback \<Rightarrow>
                    (case poll_stream callback float_sub start (mqtt_timeout s) []
                            (mqtt_messages s) polls of
                       (r, results, messages) \<Rightarrow> (r, s\<lparr>mqtt_messages := messages\<rparr>)))))"

text \<open>
  \<open>MQTT.close\<close>: \<open>if self.client:\<close> (a client object is truthy), \<open>loop_stop()\<close>,
  \<open>disconnect()\<close>, \<open>self.client = None\<close>. \<open>lib\<close> is the exception, if any, of the two
  library calls; it leaves the method before the assignment.
\<close>

definition MQTT_close :: "'m MQTT \<Rightarrow> error option \<Rightarrow> (error + unit) \<times> 'm MQTT" where
  "MQTT_close s lib =
     (case mqtt_client s of
        None \<Rightarrow> (Inr (), s)
      | Some c \<Rightarrow>
          (case lib of
             Some e \<Rightarrow> (Inl e, s)
           | None \<Rightarrow> (Inr (), s\<lparr>mqtt_client := None\<rparr>)))"

subsection \<open>WebSocket\<close>

record 'm WebSocket =
  ws_url :: string
  ws_ws :: "handle option"
  ws_callback :: "('m \<Rightarrow> bool) option"

definition WebSocket_init :: "string \<Rightarrow> ('m \<Rightarrow> bool) option \<Rightarrow> 'm WebSocket" where
  "WebSocket_init url callback = \<lparr>ws_url = url, ws_ws = None, ws_callback = callback\<rparr>"

text \<open>
  \<open>WebSocket.connect\<close>: \<open>self.ws = connect(self.url)\<close>. \<open>dial\<close> is what the library's
  \<open>connect\<close> does: it raises, and nothing is assigned, or it returns a connection.
\<close>

definition WebSocket_connect :: "'m WebSocket \<Rightarrow> error + handle \<Rightarrow> (error + unit) \<times> 'm WebSocket" where
  "WebSocket_connect w dial =
     (case dial of
        Inl e \<Rightarrow> (Inl e, w)
      | Inr h \<Rightarrow> (Inr (), w\<lparr>ws_ws := Some h\<rparr>))"

text \<open>
  What the socket does while \<open>send\<close> is blocked in \<open>self.ws.recv()\<close>: nothing has come by
  clock time \<open>t\<close> (\<open>Idle t\<close>), \<open>recv\<close> returns a frame's text, or \<open>recv\<close> raises. The code
  calls \<open>recv()\<close> with no timeout and reads no clock.
\<close>

datatype recv_event = Idle real | Frame string | Broken error

text \<open>
  \<open>response = self.ws.recv(); return json.loads(response)\<close>. \<open>loads\<close> is \<open>json.loads\<close>,
  with \<open>None\<close> for a text it rejects.
\<close>

fun recv_single :: "(string \<Rightarrow> 'm option) \<Rightarrow> recv_event list \<Rightarrow> 'm reply outcome" where
  "recv_single loads [] = None"
| "recv_single loads (Idle t # events) = recv_single loads events"
| "recv_single loads (Broken e # events) = Some (Inl e)"
| "recv_single loads (Frame text # events) =
     (case loads text of
        None \<Rightarrow> Some (Inl JSONDecodeError)
      | Some response \<Rightarrow> Some (Inr (Single response)))"

text \<open>
  \<^verbatim>\<open>
  results = []
  while True:
      response = json.loads(self.ws.recv())
      results.append(response)
      if self.callback(response):
          return results
  \<close>
\<close>

fun recv_stream ::
  "('m \<Rightarrow> bool) \<Rightarrow> (string \<Rightarrow> 'm option) \<Rightarrow> 'm list \<Rightarrow> recv_event list \<Rightarrow> 'm reply outcome"
where
  "recv_stream callback loads results [] = None"
| "recv_stream callback loads results (Idle t # events) = recv_stream callback loads results events"
| "recv_stream callback loads results (Broken e # events) = Some (Inl e)"
| "recv_stream callback loads results (Frame text # events) =
     (case loads text of
        None \<Rightarrow> Some (Inl JSONDecodeError)
      | Some response \<Rightarrow>
          if callback response then Some (Inr (Sequence (results @ [response])))
          else recv_stream callback loads (results @ [response]) events)"

text \<open>
  \<open>WebSocket.send\<close>. \<open>transmit data\<close> is the exception, if any, of \<open>json.dumps\<close> and
  \<open>ws.send\<close>. The method assigns no attribute.
\<close>

definition WebSocket_send ::
  "'m WebSocket \<Rightarrow> 'm \<Rightarrow> ('m \<Rightarrow> error option) \<Rightarrow> (string \<Rightarrow> 'm option) \<Rightarrow> recv_event list
   \<Rightarrow> 'm reply outcome \<times> 'm WebSocket"
where
  "WebSocket_send w data transmit loads events =
     (case ws_ws w of
        None \<Rightarrow> (Some (Inl ConnectionError), w)
      | Some h \<Rightarrow>
          (case transmit data of
             Some e \<Rightarrow> (Some (Inl e), w)
           | None \<Rightarrow>
               (case ws_callback w of
                  None \<Rightarrow> (recv_single loads events, w)
                | Some callback \<Rightarrow> (recv_stream callback loads [] events, w))))"

definition WebSocket_close :: "'m WebSocket \<Rightarrow> error option \<Rightarrow> (error + unit) \<times> 'm WebSocket" where
  "WebSocket_close w lib =
     (case ws_ws w of
        None \<Rightarrow> (Inr (), w)
      | Some h \<Rightarrow>
          (case lib of
             Some e \<Rightarrow> (Inl e, w)
           | None \<Rightarrow> (Inr (), w\<lparr>ws_ws := None\<rparr>)))"

subsection \<open>HTTP\<close>

record 'm HTTP =
  http_base_url :: "string option"
  http_timeout :: int
  http_endpoint :: string
  http_ended :: "('m \<Rightarrow> bool) option"
  http_client :: "handle option"

text \<open>
  \<open>HTTP.__init__(ended, base_url, endpoint, timeout)\<close>: the two checks in the source's
  order, then the assignments. Python does not enforce the annotations, so \<open>base_url\<close>
  and \<open>ended\<close> may be \<open>None\<close>; \<open>timeout\<close> is an \<open>int\<close> as annotated.
\<close>

definition HTTP_init ::
  "('m \<Rightarrow> bool) option \<Rightarrow> string option \<Rightarrow> string \<Rightarrow> int \<Rightarrow> error + 'm HTTP"
where
  "HTTP_init ended base_url endpoint timeout =
     (if base_url = None then Inl TypeError
      else if timeout \<le> 0 then Inl ValueError
      else Inr \<lparr>http_base_url = base_url, http_timeout = timeout, http_endpoint = endpoint,
                http_ended = ended, http_client = None\<rparr>)"

text \<open>
  \<open>HTTP.connect\<close>: \<open>self.client = httpx.Client(...)\<close>; \<open>built\<close> is what the constructor
  does.
\<close>

definition HTTP_connect :: "'m HTTP \<Rightarrow> error + handle \<Rightarrow> (error + unit) \<times> 'm HTTP" where
  "HTTP_connect s built =
     (case built of
        Inl e \<Rightarrow> (Inl e, s)
      | Inr h \<Rightarrow> (Inr (), s\<lparr>http_client := Some h\<rparr>))"

text \<open>
  The body of \<open>HTTP.send\<close> contains \<open>yield\<close>, so \<open>send\<close> is a generator function: the call
  runs none of the body and returns a generator object, suspended before the first
  statement and holding the argument.
\<close>

datatype 'm generator = Generator 'm

definition HTTP_send :: "'m HTTP \<Rightarrow> 'm \<Rightarrow> (error + 'm generator) \<times> 'm HTTP" where
  "HTTP_send s data = (Inr (Generator data), s)"

text \<open>
  What \<open>self.client.stream(...)\<close>, \<open>raise_for_status()\<close> and \<open>iter_lines()\<close> do, in order:
  the next line of the body, with the clock time at which \<open>iter_lines\<close> delivers it, or
  an exception of httpx. The end of the list is the end of the body. The code reads no
  clock: how long a read may take is up to the httpx client, which \<open>connect\<close> builds
  with \<open>timeout=self.timeout\<close>. The \<open>except\<close> clauses turn \<open>httpx.ConnectError\<close> into \<open>ConnectionError\<close> and
  \<open>httpx.TimeoutException\<close> into \<open>TimeoutError\<close>; any other exception passes.
\<close>

datatype httpx_exception = ConnectError | TimeoutException | OtherException string

datatype http_event = Line real string | Fault httpx_exception

fun except :: "httpx_exception \<Rightarrow> error" where
  "except ConnectError = ConnectionError"
| "except TimeoutException = TimeoutError"
| "except (OtherException name) = LibraryError name"

text \<open>
  \<^verbatim>\<open>
  for line in e.iter_lines():
      if not line:
          continue
      msg = json.loads(line)
      yield msg
      if self.ended(msg):
          break
  \<close>
  run by a consumer that takes every item: the messages yielded, in order, and the
  exception that ends the generator, if one does. With \<open>ended = None\<close> the call
  \<open>self.ended(msg)\<close>, made when the generator is resumed after its first \<open>yield\<close>, raises
  \<open>TypeError\<close>.
\<close>

fun iter_lines ::
  "(string \<Rightarrow> 'm option) \<Rightarrow> ('m \<Rightarrow> bool) option \<Rightarrow> http_event list \<Rightarrow> 'm list \<times> error option"
where
  "iter_lines loads ended [] = ([], None)"
| "iter_lines loads ended (Fault x # events) = ([], Some (except x))"
| "iter_lines loads ended (Line t line # events) =
     (if line = [] then iter_lines loads ended events
      else
        (case loads line of
           None \<Rightarrow> ([], Some JSONDecodeError)
         | Some msg \<Rightarrow>
             (case ended of
                None \<Rightarrow> ([msg], Some TypeError)
              | Some f \<Rightarrow>
                  if f msg then ([msg], None)
                  else (case iter_lines loads ended events of
                          (yielded, r) \<Rightarrow> (msg # yielded, r)))))"

text \<open>
  Iterating the generator to its end, on the object as it is when the iteration starts:
  the check \<open>if self.client is None: raise ConnectionError\<close> runs here, at the first
  \<open>next\<close>.
\<close>

definition HTTP_send_iterate ::
  "'m HTTP \<Rightarrow> 'm generator \<Rightarrow> (string \<Rightarrow> 'm option) \<Rightarrow> http_event list
   \<Rightarrow> ('m list \<times> error option) \<times> 'm HTTP"
where
  "HTTP_send_iterate s g loads events =
     (case http_client s of
        None \<Rightarrow> (([], Some ConnectionError), s)
      | Some c \<Rightarrow> (iter_lines loads (http_ended s) events, s))"

definition HTTP_close :: "'m HTTP \<Rightarrow> error option \<Rightarrow> (error + unit) \<times> 'm HTTP" where
  "HTTP_close s lib =
     (case http_client s of
        None \<Rightarrow> (Inr (), s)
      | Some c \<Rightarrow>
          (case lib of
             Some e \<Rightarrow> (Inl e, s)
           | None \<Rightarrow> (Inr (), s\<lparr>http_client := None\<rparr>)))"

subsection \<open>Sample objects and environments\<close>

text \<open>
  Objects and library answers for the concrete runs below. A sample message is a string;
  \<open>loads_text\<close> decodes every text to itself, and \<open>sent\<close> is a send or publish call that
  raises nothing. The objects are built with the constructors and \<open>connect\<close> above.
\<close>

definition is_done :: "string \<Rightarrow> bool" where
  "is_done m = (m = ''done'')"

definition sent :: "string \<Rightarrow> error option" where
  "sent data = None"

text \<open>
  The clock values of the sample runs are whole numbers of seconds below \<open>2^53\<close>: they
  and their differences are floats, so on them the subtraction of floats is the
  subtraction of the reals.
\<close>

definition exact_sub :: "real \<Rightarrow> real \<Rightarrow> real" where
  "exact_sub now start = now - start"

definition loads_text :: "string \<Rightarrow> string option" where
  "loads_text line = Some line"

definition sample_mqtt :: "(string \<Rightarrow> bool) option \<Rightarrow> string MQTT" where
  "sample_mqtt callback =
     MQTT_init ''127.0.0.1'' 1883 None ''agent/request'' ''agent/response'' callback 30"

definition connected_mqtt :: "(string \<Rightarrow> bool) option \<Rightarrow> string MQTT" where
  "connected_mqtt callback = snd (MQTT_connect (sample_mqtt callback) 1 None)"

definition sample_ws :: "(string \<Rightarrow> bool) option \<Rightarrow> string WebSocket" where
  "sample_ws callback = WebSocket_init ''ws://127.0.0.1:8000/ws'' callback"

definition connected_ws :: "(string \<Rightarrow> bool) option \<Rightarrow> string WebSocket" where
  "connected_ws callback = snd (WebSocket_connect (sample_ws callback) (Inr 1))"

definition sample_http :: "(string \<Rightarrow> bool) option \<Rightarrow> string HTTP" where
  "sample_http ended =
     \<lparr>http_base_url = Some ''http://127.0.0.1:8000'', http_timeout = 30,
      http_endpoint = ''/chat'', http_ended = ended, http_client = None\<rparr>"

definition connected_http :: "(string \<Rightarrow> bool) option \<Rightarrow> string HTTP" where
  "connected_http ended = snd (HTTP_connect (sample_http ended) (Inr 1))"

lemmas sample_defs =
  is_done_def sent_def exact_sub_def loads_text_def sample_mqtt_def connected_mqtt_def sample_ws_def
  connected_ws_def sample_http_def connected_http_def MQTT_init_def WebSocket_init_def
  MQTT_connect_def WebSocket_connect_def HTTP_connect_def

section \<open>The polling loops of \<open>MQTT.send\<close>\<close>

text \<open>
  A loop that is still waiting after a record of polls goes on, over a longer record,
  from the locals it had reached; a loop that has left does not look at further polls.
\<close>

lemma poll_stream_None_append:
  "poll_stream cb fs st tmo res msgs pre = (None, res1, msgs1) \<Longrightarrow>
   poll_stream cb fs st tmo res msgs (pre @ post) = poll_stream cb fs st tmo res1 msgs1 post"
proof (induction pre arbitrary: res msgs)
  case Nil
  then show ?case by simp
next
  case (Cons p pre)
  obtain a now where p: "p = Poll a now" by (cases p)
  from Cons.prems show ?case
    unfolding p by (auto split: list.splits if_splits intro: Cons.IH)
qed

lemma poll_stream_Some_append:
  "fst (poll_stream cb fs st tmo res msgs pre) = Some r \<Longrightarrow>
   poll_stream cb fs st tmo res msgs (pre @ post) = poll_stream cb fs st tmo res msgs pre"
proof (induction pre arbitrary: res msgs)
  case Nil
  then show ?case by simp
next
  case (Cons p pre)
  obtain a now where p: "p = Poll a now" by (cases p)
  from Cons.prems show ?case
    unfolding p by (auto split: list.splits if_splits intro: Cons.IH)
qed

lemma poll_stream_None_buffer:
  "poll_stream cb fs st tmo res msgs pre = (None, res1, msgs1) \<Longrightarrow>
   res1 @ msgs1 = res @ msgs @ concat (map poll_arrived pre)"
proof (induction pre arbitrary: res msgs)
  case Nil
  then show ?case by simp
next
  case (Cons p pre)
  obtain a now where p: "p = Poll a now" by (cases p)
  from Cons.prems show ?case
    unfolding p by (auto split: list.splits if_splits dest!: Cons.IH)
qed

lemma poll_single_None_append:
  "poll_single fs st tmo msgs pre = (None, msgs1) \<Longrightarrow>
   poll_single fs st tmo msgs (pre @ post) = poll_single fs st tmo msgs1 post"
proof (induction pre arbitrary: msgs)
  case Nil
  then show ?case by simp
next
  case (Cons p pre)
  obtain a now where p: "p = Poll a now" by (cases p)
  from Cons.prems show ?case
    unfolding p by (auto split: list.splits if_splits intro: Cons.IH)
qed

lemma poll_single_Some_append:
  "fst (poll_single fs st tmo msgs pre) = Some r \<Longrightarrow>
   poll_single fs st tmo msgs (pre @ post) = poll_single fs st tmo msgs pre"
proof (induction pre arbitrary: msgs)
  case Nil
  then show ?case by simp
next
  case (Cons p pre)
  obtain a now where p: "p = Poll a now" by (cases p)
  from Cons.prems show ?case
    unfolding p by (auto split: list.splits if_splits intro: Cons.IH)
qed

text \<open>What the loops return and raise.\<close>

lemma poll_stream_returns:
  "poll_stream cb fs st tmo res msgs polls = (Some (Inr r), res1, msgs1) \<Longrightarrow>
   \<forall>m\<in>set res. \<not> cb m \<Longrightarrow>
   \<exists>rs. r = Sequence rs \<and> rs \<noteq> [] \<and> cb (last rs) \<and> (\<forall>m\<in>set (butlast rs). \<not> cb m)"
proof (induction polls arbitrary: res msgs)
  case Nil
  then show ?case by simp
next
  case (Cons p polls)
  obtain a now where p: "p = Poll a now" by (cases p)
  show ?case
  proof (cases "msgs @ a")
    case Nil
    with Cons.prems p have "poll_stream cb fs st tmo res [] polls = (Some (Inr r), res1, msgs1)"
      by (auto split: if_splits)
    with Cons.IH Cons.prems(2) show ?thesis by blast
  next
    case (Cons msg rest)
    show ?thesis
    proof (cases "cb msg")
      case True
      with Cons Cons.prems p show ?thesis by auto
    next
      case False
      with Cons Cons.prems(1) p
      have "poll_stream cb fs st tmo (res @ [msg]) rest polls = (Some (Inr r), res1, msgs1)"
        by (auto split: if_splits)
      moreover from False Cons.prems(2) have "\<forall>m\<in>set (res @ [msg]). \<not> cb m" by auto
      ultimately show ?thesis using Cons.IH by blast
    qed
  qed
qed

lemma poll_stream_raises:
  "fst (poll_stream cb fs st tmo res msgs polls) = Some (Inl e) \<Longrightarrow> e = TimeoutError"
proof (induction polls arbitrary: res msgs)
  case Nil
  then show ?case by simp
next
  case (Cons p polls)
  obtain a now where p: "p = Poll a now" by (cases p)
  from Cons.prems show ?case
    unfolding p by (auto split: list.splits if_splits dest: Cons.IH)
qed

lemma poll_single_returns:
  "fst (poll_single fs st tmo msgs polls) = Some (Inr r) \<Longrightarrow> \<exists>m. r = Single m"
proof (induction polls arbitrary: msgs)
  case Nil
  then show ?case by simp
next
  case (Cons p polls)
  obtain a now where p: "p = Poll a now" by (cases p)
  from Cons.prems show ?case
    unfolding p by (auto split: list.splits if_splits dest: Cons.IH)
qed

lemma poll_single_raises:
  "fst (poll_single fs st tmo msgs polls) = Some (Inl e) \<Longrightarrow> e = TimeoutError"
proof (induction polls arbitrary: msgs)
  case Nil
  then show ?case by simp
next
  case (Cons p polls)
  obtain a now where p: "p = Poll a now" by (cases p)
  from Cons.prems show ?case
    unfolding p by (auto split: list.splits if_splits dest: Cons.IH)
qed

text \<open>
  A poll whose clock reading is beyond \<open>start + timeout\<close> is the last one a loop can
  reach: the loop has left by then, whatever comes after.
\<close>

lemma poll_single_deadline:
  assumes "tmo < fs now st"
  shows "fst (poll_single fs st tmo msgs (pre @ Poll a now # post)) \<noteq> None"
    and "poll_single fs st tmo msgs (pre @ Poll a now # post) = poll_single fs st tmo msgs (pre @ [Poll a now])"
proof -
  have "fst (poll_single fs st tmo msgs (pre @ Poll a now # post)) \<noteq> None \<and>
        poll_single fs st tmo msgs (pre @ Poll a now # post) = poll_single fs st tmo msgs (pre @ [Poll a now])"
  proof (cases "fst (poll_single fs st tmo msgs pre)")
    case None
    then obtain msgs1 where pre: "poll_single fs st tmo msgs pre = (None, msgs1)"
      by (cases "poll_single fs st tmo msgs pre") simp
    show ?thesis
      using assms
      by (simp add: poll_single_None_append [OF pre] split: list.splits)
  next
    case (Some r)
    show ?thesis
      using Some by (simp add: poll_single_Some_append [OF Some])
  qed
  then show "fst (poll_single fs st tmo msgs (pre @ Poll a now # post)) \<noteq> None"
    and "poll_single fs st tmo msgs (pre @ Poll a now # post) = poll_single fs st tmo msgs (pre @ [Poll a now])"
    by blast+
qed

lemma poll_stream_deadline:
  assumes "tmo < fs now st"
  shows "fst (poll_stream cb fs st tmo res msgs (pre @ Poll a now # post)) \<noteq> None"
    and "poll_stream cb fs st tmo res msgs (pre @ Poll a now # post) =
         poll_stream cb fs st tmo res msgs (pre @ [Poll a now])"
proof -
  have "fst (poll_stream cb fs st tmo res msgs (pre @ Poll a now # post)) \<noteq> None \<and>
        poll_stream cb fs st tmo res msgs (pre @ Poll a now # post) =
        poll_stream cb fs st tmo res msgs (pre @ [Poll a now])"
  proof (cases "fst (poll_stream cb fs st tmo res msgs pre)")
    case None
    then obtain res1 msgs1 where pre: "poll_stream cb fs st tmo res msgs pre = (None, res1, msgs1)"
      by (cases "poll_stream cb fs st tmo res msgs pre") simp
    show ?thesis
      using assms
      by (simp add: poll_stream_None_append [OF pre] split: list.splits)
  next
    case (Some r)
    show ?thesis
      using Some by (simp add: poll_stream_Some_append [OF Some])
  qed
  then show "fst (poll_stream cb fs st tmo res msgs (pre @ Poll a now # post)) \<noteq> None"
    and "poll_stream cb fs st tmo res msgs (pre @ Poll a now # post) =
         poll_stream cb fs st tmo res msgs (pre @ [Poll a now])"
    by blast+
qed


lemma poll_stream_silence:
  "\<forall>p\<in>set polls. poll_arrived p = [] \<Longrightarrow> \<exists>p\<in>set polls. tmo < fs (poll_clock p) st \<Longrightarrow>
   poll_stream cb fs st tmo res [] polls = (Some (Inl TimeoutError), res, [])"
proof (induction polls)
  case Nil
  then show ?case by simp
next
  case (Cons p polls)
  obtain a now where p: "p = Poll a now" by (cases p)
  show ?case
  proof (cases "tmo < fs now st")
    case True
    with Cons.prems(1) p show ?thesis by simp
  next
    case False
    with Cons.prems p have "\<exists>p\<in>set polls. tmo < fs (poll_clock p) st" by auto
    with Cons.IH Cons.prems(1) have "poll_stream cb fs st tmo res [] polls = (Some (Inl TimeoutError), res, [])"
      by simp
    with False Cons.prems(1) p show ?thesis by simp
  qed
qed

section \<open>The receive loops of \<open>WebSocket.send\<close>\<close>

lemma recv_stream_returns:
  "recv_stream cb loads res events = Some (Inr r) \<Longrightarrow>
   \<forall>m\<in>set res. \<not> cb m \<Longrightarrow>
   \<exists>rs. r = Sequence rs \<and> rs \<noteq> [] \<and> cb (last rs) \<and> (\<forall>m\<in>set (butlast rs). \<not> cb m)"
proof (induction cb loads res events rule: recv_stream.induct)
  case (4 callback loads results frame events)
  show ?case
  proof (cases "loads frame")
    case None
    with 4 show ?thesis by simp
  next
    case (Some response)
    show ?thesis
    proof (cases "callback response")
      case True
      with Some 4 show ?thesis by auto
    next
      case False
      with Some 4 show ?thesis by auto
    qed
  qed
qed simp_all

lemma recv_single_returns:
  "recv_single loads events = Some (Inr r) \<Longrightarrow> \<exists>m. r = Single m"
  by (induction loads events rule: recv_single.induct) (auto split: option.splits)

lemma recv_single_idle: "recv_single loads (map Idle ts) = None"
  by (induction ts) simp_all

lemma recv_stream_idle: "recv_stream cb loads res (map Idle ts) = None"
  by (induction ts) simp_all

lemma recv_single_answered:
  "\<exists>ev\<in>set events. \<forall>t. ev \<noteq> Idle t \<Longrightarrow> recv_single loads events \<noteq> None"
  by (induction loads events rule: recv_single.induct) (auto split: option.splits)

section \<open>The generator of \<open>HTTP.send\<close>\<close>

text \<open>
  The generator raises \<open>TimeoutError\<close> only where httpx raised its timeout, and an
  exception of httpx that the generator reaches ends it, after the messages yielded so
  far.
\<close>

lemma iter_lines_timeout_from_httpx:
  "snd (iter_lines loads ended events) = Some TimeoutError \<Longrightarrow>
   Fault TimeoutException \<in> set events"
proof (induction events)
  case Nil
  then show ?case by simp
next
  case (Cons ev events)
  show ?case
  proof (cases ev)
    case (Fault x)
    with Cons.prems show ?thesis by (cases x) simp_all
  next
    case (Line t line)
    show ?thesis
    proof (cases "line = []")
      case True
      with Line Cons show ?thesis by simp
    next
      case False
      show ?thesis
      proof (cases "loads line")
        case None
        with Line False Cons.prems show ?thesis by simp
      next
        case (Some msg)
        show ?thesis
        proof (cases ended)
          case None
          with Line False Some Cons.prems show ?thesis by simp
        next
          case (Some f)
          show ?thesis
          proof (cases "f msg")
            case True
            with Line False \<open>loads line = Some msg\<close> Some Cons.prems show ?thesis by simp
          next
            case nf: False
            with Line False \<open>loads line = Some msg\<close> Some Cons.prems
            have "snd (iter_lines loads ended events) = Some TimeoutError"
              by (simp split: prod.splits)
            with Cons.IH show ?thesis by simp
          qed
        qed
      qed
    qed
  qed
qed

lemma iter_lines_fault_reached:
  "snd (iter_lines loads (Some f) pre) = None \<Longrightarrow>
   \<forall>m\<in>set (fst (iter_lines loads (Some f) pre)). \<not> f m \<Longrightarrow>
   iter_lines loads (Some f) (pre @ Fault x # post)
     = (fst (iter_lines loads (Some f) pre), Some (except x))"
proof (induction pre)
  case Nil
  then show ?case by simp
next
  case (Cons ev pre)
  show ?case
  proof (cases ev)
    case (Fault y)
    with Cons.prems(1) show ?thesis by simp
  next
    case (Line t line)
    show ?thesis
    proof (cases "line = []")
      case True
      with Line Cons.prems have "snd (iter_lines loads (Some f) pre) = None"
        and "\<forall>m\<in>set (fst (iter_lines loads (Some f) pre)). \<not> f m"
        by simp_all
      from Cons.IH [OF this] Line True show ?thesis by simp
    next
      case False
      show ?thesis
      proof (cases "loads line")
        case None
        with Line False Cons.prems(1) show ?thesis by simp
      next
        case (Some msg)
        obtain ys r where rest: "iter_lines loads (Some f) pre = (ys, r)"
          by (cases "iter_lines loads (Some f) pre")
        show ?thesis
        proof (cases "f msg")
          case True
          with Line False Some Cons.prems(2) show ?thesis by simp
        next
          case nf: False
          from Line False Some nf rest
          have whole: "iter_lines loads (Some f) (ev # pre) = (msg # ys, r)"
            by simp
          with Cons.prems rest have "snd (iter_lines loads (Some f) pre) = None"
            and "\<forall>m\<in>set (fst (iter_lines loads (Some f) pre)). \<not> f m"
            by simp_all
          from Cons.IH [OF this] rest
          have "iter_lines loads (Some f) (pre @ Fault x # post) = (ys, Some (except x))"
            by simp
          with Line False Some nf whole show ?thesis by simp
        qed
      qed
    qed
  qed
qed

section \<open>The claims\<close>

subsection \<open>C1: a streamed reply ends at its first final message\<close>

text \<open>
  Claim C1. With a callback, whenever \<open>MQTT.send\<close> or \<open>WebSocket.send\<close> returns, it
  returns a non-empty list whose last element satisfies the callback and whose earlier
  elements do not.
\<close>

theorem C1_stream_ends_at_first_final:
  "(mqtt_callback s = Some cb \<and> fst (MQTT_send s data publish float_sub start polls) = Some (Inr r) \<longrightarrow>
      (\<exists>rs. r = Sequence rs \<and> rs \<noteq> [] \<and> cb (last rs) \<and> (\<forall>m\<in>set (butlast rs). \<not> cb m))) \<and>
   (ws_callback w = Some cb' \<and>
    fst (WebSocket_send w data' transmit loads events) = Some (Inr r') \<longrightarrow>
      (\<exists>rs. r' = Sequence rs \<and> rs \<noteq> [] \<and> cb' (last rs) \<and> (\<forall>m\<in>set (butlast rs). \<not> cb' m)))"
proof (intro conjI impI)
  assume a: "mqtt_callback s = Some cb \<and> fst (MQTT_send s data publish float_sub start polls) = Some (Inr r)"
  obtain o1 res1 msgs1 where
    loop: "poll_stream cb float_sub start (mqtt_timeout s) [] (mqtt_messages s) polls = (o1, res1, msgs1)"
    by (cases "poll_stream cb float_sub start (mqtt_timeout s) [] (mqtt_messages s) polls")
  from a loop have "o1 = Some (Inr r)"
    by (auto simp: MQTT_send_def split: option.splits)
  with loop poll_stream_returns [of cb float_sub start "mqtt_timeout s" "[]" "mqtt_messages s" polls r res1 msgs1]
  show "\<exists>rs. r = Sequence rs \<and> rs \<noteq> [] \<and> cb (last rs) \<and> (\<forall>m\<in>set (butlast rs). \<not> cb m)"
    by simp
next
  assume a: "ws_callback w = Some cb' \<and>
    fst (WebSocket_send w data' transmit loads events) = Some (Inr r')"
  then have "recv_stream cb' loads [] events = Some (Inr r')"
    by (auto simp: WebSocket_send_def split: option.splits)
  from recv_stream_returns [OF this]
  show "\<exists>rs. r' = Sequence rs \<and> rs \<noteq> [] \<and> cb' (last rs) \<and> (\<forall>m\<in>set (butlast rs). \<not> cb' m)"
    by simp
qed

text \<open>
  Claim C1, a run of each variant: the messages \<open>a\<close>, \<open>b\<close>, \<open>done\<close>, \<open>x\<close> arrive and the
  call returns the first three.
\<close>

theorem C1_stream_ends_at_first_final_witness:
  "mqtt_callback (connected_mqtt (Some is_done)) = Some is_done \<and>
   fst (MQTT_send (connected_mqtt (Some is_done)) ''ask'' sent exact_sub 0
          [Poll [''a'', ''b''] 1, Poll [] 2, Poll [''done'', ''x''] 3])
     = Some (Inr (Sequence [''a'', ''b'', ''done''])) \<and>
   ws_callback (connected_ws (Some is_done)) = Some is_done \<and>
   fst (WebSocket_send (connected_ws (Some is_done)) ''ask'' sent loads_text
          [Frame ''a'', Idle 5, Frame ''b'', Frame ''done'', Frame ''x''])
     = Some (Inr (Sequence [''a'', ''b'', ''done''])) \<and>
   is_done (last [''a'', ''b'', ''done'']) \<and> \<not> is_done ''a'' \<and> \<not> is_done ''b''"
  using C1_stream_ends_at_first_final
    [of "connected_mqtt (Some is_done)" is_done "''ask''" sent exact_sub 0
        "[Poll [''a'', ''b''] 1, Poll [] 2, Poll [''done'', ''x''] 3]"
        "Sequence [''a'', ''b'', ''done'']"
        "connected_ws (Some is_done)" is_done "''ask''" sent loads_text
        "[Frame ''a'', Idle 5, Frame ''b'', Frame ''done'', Frame ''x'']"
        "Sequence [''a'', ''b'', ''done'']"]
  by (simp add: sample_defs MQTT_send_def WebSocket_send_def)

subsection \<open>C2: one message without callback\<close>

text \<open>
  Claim C2 says that without a termination predicate every variant returns exactly one
  message or raises. It fails for \<open>HTTP\<close>: with \<open>ended = None\<close>, on a connected object and
  a response with an empty body, \<open>send\<close> returns a generator, and iterating it yields no
  message and raises nothing.
\<close>

theorem C2_http_without_predicate_counterexample:
  "http_ended (connected_http None) = None \<and>
   HTTP_send (connected_http None) ''ask'' = (Inr (Generator ''ask''), connected_http None) \<and>
   HTTP_send_iterate (connected_http None) (Generator ''ask'') loads_text []
     = (([], None), connected_http None)"
  by (simp add: sample_defs HTTP_send_def HTTP_send_iterate_def)

text \<open>
  Claim C2, amended. Without a callback, \<open>MQTT.send\<close> and \<open>WebSocket.send\<close> never return a
  list: a call that returns returns exactly one message. \<open>MQTT.send\<close> has returned one
  message or raised by the first poll at which the float difference
  \<open>time.time() - start\<close> is greater than \<open>timeout\<close>. \<open>WebSocket.send\<close> has returned one
  message or raised as soon as \<open>recv\<close> delivers a frame or raises, and stays blocked
  while nothing arrives. \<open>HTTP.send\<close> has no single-response mode: it always returns a
  generator.
\<close>

theorem C2_single_reply:
  "(mqtt_callback s = None \<and>
    (\<exists>p\<in>set polls. mqtt_timeout s < float_sub (poll_clock p) start) \<longrightarrow>
      (\<exists>m. fst (MQTT_send s data publish float_sub start polls) = Some (Inr (Single m))) \<or>
      (\<exists>e. fst (MQTT_send s data publish float_sub start polls) = Some (Inl e))) \<and>
   (ws_callback w = None \<and> (\<exists>ev\<in>set events. \<forall>t. ev \<noteq> Idle t) \<longrightarrow>
      (\<exists>m. fst (WebSocket_send w data' transmit loads events) = Some (Inr (Single m))) \<or>
      (\<exists>e. fst (WebSocket_send w data' transmit loads events) = Some (Inl e))) \<and>
   (mqtt_callback s = None \<and>
    fst (MQTT_send s data publish float_sub start polls) = Some (Inr r) \<longrightarrow>
      (\<exists>m. r = Single m)) \<and>
   (ws_callback w = None \<and>
    fst (WebSocket_send w data' transmit loads events) = Some (Inr r') \<longrightarrow>
      (\<exists>m. r' = Single m)) \<and>
   (ws_callback w = None \<and> ws_ws w = Some h \<and> transmit data' = None \<longrightarrow>
      fst (WebSocket_send w data' transmit loads (map Idle ts)) = None) \<and>
   HTTP_send c request = (Inr (Generator request), c)"
proof (intro conjI impI)
  assume a: "mqtt_callback s = None \<and>
    (\<exists>p\<in>set polls. mqtt_timeout s < float_sub (poll_clock p) start)"
  then obtain p where p: "p \<in> set polls" "mqtt_timeout s < float_sub (poll_clock p) start"
    by blast
  then obtain pre post where split: "polls = pre @ p # post"
    by (meson split_list)
  obtain a' now where pn: "p = Poll a' now" by (cases p)
  from p(2) pn have late: "mqtt_timeout s < float_sub now start" by simp
  let ?loop = "poll_single float_sub start (mqtt_timeout s) (mqtt_messages s) polls"
  from poll_single_deadline(1)
      [where fs = float_sub and now = now and st = start and tmo = "mqtt_timeout s"
         and msgs = "mqtt_messages s" and pre = pre and a = a' and post = post, OF late]
    split pn
  obtain x where x: "fst ?loop = Some x" by auto
  have shape: "(\<exists>m. x = Inr (Single m)) \<or> (\<exists>e. x = Inl e)"
  proof (cases x)
    case (Inl e)
    then show ?thesis by simp
  next
    case (Inr r)
    with x poll_single_returns [of float_sub start "mqtt_timeout s" "mqtt_messages s" polls r]
    show ?thesis by simp
  qed
  show "(\<exists>m. fst (MQTT_send s data publish float_sub start polls) = Some (Inr (Single m))) \<or>
        (\<exists>e. fst (MQTT_send s data publish float_sub start polls) = Some (Inl e))"
  proof (cases "mqtt_client s")
    case None
    then show ?thesis by (simp add: MQTT_send_def)
  next
    case (Some k)
    show ?thesis
    proof (cases "publish data")
      case (Some e)
      with \<open>mqtt_client s = Some k\<close> show ?thesis by (simp add: MQTT_send_def)
    next
      case None
      with \<open>mqtt_client s = Some k\<close> a
      have "fst (MQTT_send s data publish float_sub start polls) = fst ?loop"
        by (simp add: MQTT_send_def split: prod.splits)
      with x shape show ?thesis by auto
    qed
  qed
next
  assume a: "ws_callback w = None \<and> (\<exists>ev\<in>set events. \<forall>t. ev \<noteq> Idle t)"
  then have "recv_single loads events \<noteq> None"
    using recv_single_answered [of events loads] by blast
  then obtain x where x: "recv_single loads events = Some x" by auto
  have shape: "(\<exists>m. x = Inr (Single m)) \<or> (\<exists>e. x = Inl e)"
  proof (cases x)
    case (Inl e)
    then show ?thesis by simp
  next
    case (Inr r)
    with x recv_single_returns [of loads events r] show ?thesis by simp
  qed
  show "(\<exists>m. fst (WebSocket_send w data' transmit loads events) = Some (Inr (Single m))) \<or>
        (\<exists>e. fst (WebSocket_send w data' transmit loads events) = Some (Inl e))"
  proof (cases "ws_ws w")
    case None
    then show ?thesis by (simp add: WebSocket_send_def)
  next
    case (Some k)
    show ?thesis
    proof (cases "transmit data'")
      case (Some e)
      with \<open>ws_ws w = Some k\<close> show ?thesis by (simp add: WebSocket_send_def)
    next
      case None
      with \<open>ws_ws w = Some k\<close> a
      have "fst (WebSocket_send w data' transmit loads events) = recv_single loads events"
        by (simp add: WebSocket_send_def)
      with x shape show ?thesis by auto
    qed
  qed
next
  assume a: "mqtt_callback s = None \<and>
    fst (MQTT_send s data publish float_sub start polls) = Some (Inr r)"
  then have "fst (poll_single float_sub start (mqtt_timeout s) (mqtt_messages s) polls)
      = Some (Inr r)"
    by (auto simp: MQTT_send_def split: option.splits prod.splits)
  from poll_single_returns [OF this] show "\<exists>m. r = Single m" .
next
  assume a: "ws_callback w = None \<and>
    fst (WebSocket_send w data' transmit loads events) = Some (Inr r')"
  then have "recv_single loads events = Some (Inr r')"
    by (auto simp: WebSocket_send_def split: option.splits)
  from recv_single_returns [OF this] show "\<exists>m. r' = Single m" .
next
  assume "ws_callback w = None \<and> ws_ws w = Some h \<and> transmit data' = None"
  then show "fst (WebSocket_send w data' transmit loads (map Idle ts)) = None"
    by (simp add: WebSocket_send_def recv_single_idle)
next
  show "HTTP_send c request = (Inr (Generator request), c)"
    by (simp add: HTTP_send_def)
qed

text \<open>
  Claim C2, amended, a run of each variant in which one message is returned, and a
  \<open>WebSocket.send\<close> still blocked after 40 seconds.
\<close>

theorem C2_single_reply_witness:
  "mqtt_callback (connected_mqtt None) = None \<and>
   mqtt_timeout (connected_mqtt None) < exact_sub (poll_clock (Poll [] 31)) 0 \<and>
   fst (MQTT_send (connected_mqtt None) ''ask'' sent exact_sub 0
          [Poll [] 1, Poll [''answer'', ''x''] 2, Poll [] 31])
     = Some (Inr (Single ''answer'')) \<and>
   ws_callback (connected_ws None) = None \<and>
   fst (WebSocket_send (connected_ws None) ''ask'' sent loads_text [Idle 40, Frame ''answer''])
     = Some (Inr (Single ''answer'')) \<and>
   ws_ws (connected_ws None) = Some 1 \<and> sent ''ask'' = None \<and>
   fst (WebSocket_send (connected_ws None) ''ask'' sent loads_text (map Idle [40])) = None \<and>
   HTTP_send (sample_http None) ''ask'' = (Inr (Generator ''ask''), sample_http None)"
  using C2_single_reply
    [where s = "connected_mqtt None" and float_sub = exact_sub and start = 0
       and polls = "[Poll [] 1, Poll [''answer'', ''x''] 2, Poll [] 31]"
       and data = "''ask''" and publish = sent
       and w = "connected_ws None" and events = "[Idle 40, Frame ''answer'']"
       and data' = "''ask''" and transmit = sent and loads = loads_text
       and r = "Single ''answer''" and r' = "Single ''answer''" and h = 1 and ts = "[40]"
       and c = "sample_http None" and request = "''ask''"]
  by (simp add: sample_defs MQTT_send_def WebSocket_send_def)

subsection \<open>C3: a timeout carries no collected message\<close>



subsection \<open>C4: waits and the deadline\<close>

text \<open>
  Claim C4 says that every variant's wait is bounded by the deadline, the start time plus
  the configured timeout. It fails for \<open>WebSocket\<close>, which has no timeout: with nothing
  received after 1000000 seconds the call is still blocked in \<open>recv\<close>, and a frame that
  comes after that is returned as a normal reply. It fails for \<open>HTTP\<close>, which reads no
  clock: with a timeout of 30 and lines delivered at 29, 58 and 87 seconds, each read
  within the timeout of the httpx client, the generator yields all three and ends
  normally, 87 seconds after it started.
\<close>

theorem C4_wait_beyond_deadline_counterexample:
  "ws_ws (connected_ws None) = Some 1 \<and>
   fst (WebSocket_send (connected_ws None) ''ask'' sent loads_text [Idle 1000000]) = None \<and>
   fst (WebSocket_send (connected_ws None) ''ask'' sent loads_text [Idle 1000000, Frame ''late''])
     = Some (Inr (Single ''late'')) \<and>
   http_timeout (connected_http (Some is_done)) = 30 \<and>
   HTTP_send_iterate (connected_http (Some is_done)) (Generator ''ask'') loads_text
       [Line 29 ''a'', Line 58 ''b'', Line 87 ''done'']
     = (([''a'', ''b'', ''done''], None), connected_http (Some is_done))"
  by (simp add: sample_defs WebSocket_send_def HTTP_send_iterate_def)

text \<open>
  Claim C4, amended. \<open>MQTT.send\<close> has returned or raised by the first poll at which the
  float difference \<open>time.time() - start\<close> is greater than \<open>timeout\<close>, and no later poll
  changes its result. \<open>WebSocket.send\<close> on a connected object stays blocked for as long
  as no frame comes. The generator of \<open>HTTP.send\<close> keeps no deadline of its own: it raises
  \<open>TimeoutError\<close> only where the httpx client raised its timeout, and it does raise it
  there, after the messages yielded so far, whenever it is still reading.
\<close>

theorem C4_waits_per_variant:
  "(mqtt_timeout s < float_sub now start \<longrightarrow>
      fst (MQTT_send s data publish float_sub start (pre @ Poll arrived now # post)) \<noteq> None \<and>
      MQTT_send s data publish float_sub start (pre @ Poll arrived now # post)
        = MQTT_send s data publish float_sub start (pre @ [Poll arrived now])) \<and>
   (ws_ws w = Some h \<and> transmit data' = None \<longrightarrow>
      fst (WebSocket_send w data' transmit loads (map Idle ts)) = None) \<and>
   (snd (fst (HTTP_send_iterate c g loads' events)) = Some TimeoutError \<longrightarrow>
      Fault TimeoutException \<in> set events) \<and>
   (http_client c = Some k \<and> http_ended c = Some f \<and>
    snd (iter_lines loads' (Some f) lines) = None \<and>
    (\<forall>m\<in>set (fst (iter_lines loads' (Some f) lines)). \<not> f m) \<longrightarrow>
      HTTP_send_iterate c g loads' (lines @ Fault TimeoutException # rest)
        = ((fst (iter_lines loads' (Some f) lines), Some TimeoutError), c))"
proof (intro conjI impI)
  assume late: "mqtt_timeout s < float_sub now start"
  note single = poll_single_deadline
    [where fs = float_sub and now = now and st = start and tmo = "mqtt_timeout s"
       and msgs = "mqtt_messages s" and pre = pre and a = arrived and post = post, OF late]
  have stream:
    "fst (poll_stream cb float_sub start (mqtt_timeout s) [] (mqtt_messages s)
            (pre @ Poll arrived now # post)) \<noteq> None"
    "poll_stream cb float_sub start (mqtt_timeout s) [] (mqtt_messages s)
            (pre @ Poll arrived now # post)
       = poll_stream cb float_sub start (mqtt_timeout s) [] (mqtt_messages s)
            (pre @ [Poll arrived now])" for cb
    using poll_stream_deadline
      [where fs = float_sub and now = now and st = start and tmo = "mqtt_timeout s"
         and cb = cb and res = "[]" and msgs = "mqtt_messages s" and pre = pre
         and a = arrived and post = post, OF late]
    by blast+
  show "fst (MQTT_send s data publish float_sub start (pre @ Poll arrived now # post)) \<noteq> None"
  proof (cases "mqtt_callback s")
    case None
    with single(1) show ?thesis
      by (auto simp: MQTT_send_def split: option.splits prod.splits)
  next
    case (Some cb)
    with stream(1) [of cb] show ?thesis
      by (auto simp: MQTT_send_def split: option.splits prod.splits)
  qed
  show "MQTT_send s data publish float_sub start (pre @ Poll arrived now # post)
        = MQTT_send s data publish float_sub start (pre @ [Poll arrived now])"
    using single(2) stream(2)
    by (simp add: MQTT_send_def split: option.splits)
next
  assume "ws_ws w = Some h \<and> transmit data' = None"
  then show "fst (WebSocket_send w data' transmit loads (map Idle ts)) = None"
    by (simp add: WebSocket_send_def recv_single_idle recv_stream_idle split: option.splits)
next
  assume a: "snd (fst (HTTP_send_iterate c g loads' events)) = Some TimeoutError"
  have "snd (iter_lines loads' (http_ended c) events) = Some TimeoutError"
  proof (cases "http_client c")
    case None
    with a show ?thesis by (simp add: HTTP_send_iterate_def)
  next
    case (Some k)
    with a show ?thesis by (simp add: HTTP_send_iterate_def)
  qed
  then show "Fault TimeoutException \<in> set events"
    by (rule iter_lines_timeout_from_httpx)
next
  assume a: "http_client c = Some k \<and> http_ended c = Some f \<and>
    snd (iter_lines loads' (Some f) lines) = None \<and>
    (\<forall>m\<in>set (fst (iter_lines loads' (Some f) lines)). \<not> f m)"
  then have conn: "http_client c = Some k" and ended: "http_ended c = Some f"
    and reading: "snd (iter_lines loads' (Some f) lines) = None"
    and none_final: "\<forall>m\<in>set (fst (iter_lines loads' (Some f) lines)). \<not> f m"
    by simp_all
  from iter_lines_fault_reached [OF reading none_final, of TimeoutException rest]
  show "HTTP_send_iterate c g loads' (lines @ Fault TimeoutException # rest)
        = ((fst (iter_lines loads' (Some f) lines), Some TimeoutError), c)"
    by (simp add: HTTP_send_iterate_def conn ended)
qed

text \<open>
  Claim C4, amended, a run of each variant: the clock reads 31 with a timeout of 30 and
  \<open>MQTT.send\<close> raises \<open>TimeoutError\<close> there; \<open>WebSocket.send\<close> is still waiting after an
  hour; httpx raises its timeout after two lines and the generator of \<open>HTTP.send\<close>
  raises \<open>TimeoutError\<close> after yielding them.
\<close>

theorem C4_waits_per_variant_witness:
  "mqtt_timeout (connected_mqtt (Some is_done)) < exact_sub 31 0 \<and>
   MQTT_send (connected_mqtt (Some is_done)) ''ask'' sent exact_sub 0
       ([Poll [''a''] 10] @ Poll [] 31 # [Poll [''done''] 32])
     = (Some (Inl TimeoutError), connected_mqtt (Some is_done)) \<and>
   MQTT_send (connected_mqtt (Some is_done)) ''ask'' sent exact_sub 0
       ([Poll [''a''] 10] @ [Poll [] 31])
     = (Some (Inl TimeoutError), connected_mqtt (Some is_done)) \<and>
   ws_ws (connected_ws (Some is_done)) = Some 1 \<and> sent ''ask'' = None \<and>
   fst (WebSocket_send (connected_ws (Some is_done)) ''ask'' sent loads_text
          (map Idle [10, 31, 3600])) = None \<and>
   http_client (connected_http (Some is_done)) = Some 1 \<and>
   http_ended (connected_http (Some is_done)) = Some is_done \<and>
   iter_lines loads_text (Some is_done) [Line 5 ''a'', Line 9 ''b''] = ([''a'', ''b''], None) \<and>
   \<not> is_done ''a'' \<and> \<not> is_done ''b'' \<and>
   HTTP_send_iterate (connected_http (Some is_done)) (Generator ''ask'') loads_text
       ([Line 5 ''a'', Line 9 ''b''] @ Fault TimeoutException # [])
     = (([''a'', ''b''], Some TimeoutError), connected_http (Some is_done)) \<and>
   Fault TimeoutException \<in> set ([Line 5 ''a'', Line 9 ''b''] @ Fault TimeoutException # [])"
proof -
  have mqtt: "mqtt_timeout (connected_mqtt (Some is_done)) < exact_sub 31 0"
    and ws: "ws_ws (connected_ws (Some is_done)) = Some 1" "sent ''ask'' = None"
    and http: "http_client (connected_http (Some is_done)) = Some 1"
      "http_ended (connected_http (Some is_done)) = Some is_done"
    by (simp_all add: sample_defs)
  have lines: "iter_lines loads_text (Some is_done) [Line 5 ''a'', Line 9 ''b'']
      = ([''a'', ''b''], None)"
    and others: "\<not> is_done ''a''" "\<not> is_done ''b''"
    by (simp_all add: loads_text_def is_done_def)
  have run: "MQTT_send (connected_mqtt (Some is_done)) ''ask'' sent exact_sub 0
       ([Poll [''a''] 10] @ [Poll [] 31])
     = (Some (Inl TimeoutError), connected_mqtt (Some is_done))"
    by (simp add: sample_defs MQTT_send_def)
  note inst = C4_waits_per_variant
    [where s = "connected_mqtt (Some is_done)" and float_sub = exact_sub and now = 31
       and start = 0 and data = "''ask''" and publish = sent and pre = "[Poll [''a''] 10]"
       and arrived = "[]" and post = "[Poll [''done''] 32]"
       and w = "connected_ws (Some is_done)" and h = 1 and transmit = sent
       and data' = "''ask''" and loads = loads_text and ts = "[10, 31, 3600]"
       and c = "connected_http (Some is_done)" and g = "Generator ''ask''"
       and loads' = loads_text
       and events = "[Line 5 ''a'', Line 9 ''b''] @ Fault TimeoutException # []"
       and k = 1 and f = is_done and lines = "[Line 5 ''a'', Line 9 ''b'']" and rest = "[]"]
  from inst mqtt run
  have m: "MQTT_send (connected_mqtt (Some is_done)) ''ask'' sent exact_sub 0
       ([Poll [''a''] 10] @ Poll [] 31 # [Poll [''done''] 32])
     = (Some (Inl TimeoutError), connected_mqtt (Some is_done))"
    by simp
  from inst ws
  have w: "fst (WebSocket_send (connected_ws (Some is_done)) ''ask'' sent loads_text
          (map Idle [10, 31, 3600])) = None"
    by blast
  from inst http lines others
  have h: "HTTP_send_iterate (connected_http (Some is_done)) (Generator ''ask'') loads_text
       ([Line 5 ''a'', Line 9 ''b''] @ Fault TimeoutException # [])
     = (([''a'', ''b''], Some TimeoutError), connected_http (Some is_done))"
    by simp
  from inst h have e: "Fault TimeoutException
      \<in> set ([Line 5 ''a'', Line 9 ''b''] @ Fault TimeoutException # [])"
    by simp
  from mqtt m run ws w http lines others h e show ?thesis by blast
qed

subsection \<open>C5: \<open>send\<close> on an object that is not connected\<close>

text \<open>
  \<open>MQTT.send\<close> and \<open>WebSocket.send\<close> raise \<open>ConnectionError\<close> and change nothing when
  \<open>client\<close> (\<open>ws\<close>) is \<open>None\<close>, which it is before \<open>connect\<close> and after \<open>close\<close>. The same
  check of \<open>HTTP.send\<close> runs only when the generator is iterated.
\<close>

lemma MQTT_send_not_connected:
  "mqtt_client s = None \<Longrightarrow>
   MQTT_send s data publish float_sub start polls = (Some (Inl ConnectionError), s)"
  by (simp add: MQTT_send_def)

lemma WebSocket_send_not_connected:
  "ws_ws w = None \<Longrightarrow>
   WebSocket_send w data transmit loads events = (Some (Inl ConnectionError), w)"
  by (simp add: WebSocket_send_def)

lemma HTTP_send_iterate_not_connected:
  "http_client s = None \<Longrightarrow>
   HTTP_send_iterate s g loads events = (([], Some ConnectionError), s)"
  by (simp add: HTTP_send_iterate_def)

lemma closed_is_not_connected:
  "mqtt_client (snd (MQTT_close s None)) = None"
  "ws_ws (snd (WebSocket_close w None)) = None"
  "http_client (snd (HTTP_close h None)) = None"
  by (simp_all add: MQTT_close_def WebSocket_close_def HTTP_close_def split: option.splits)

text \<open>
  Claim C5 says that calling \<open>send\<close> on an unconnected or closed transport fails with the
  not-connected error, for every variant. Evaluated on objects that were never connected:
  \<open>HTTP.send\<close> returns a generator and raises nothing (also after \<open>close\<close>), while \<open>MQTT.send\<close>
  and \<open>WebSocket.send\<close> raise \<open>ConnectionError\<close>.
\<close>

theorem C5_http_send_unconnected_does_not_fail:
  "http_client (sample_http (Some is_done)) = None \<and>
   HTTP_send (sample_http (Some is_done)) ''ask''
     = (Inr (Generator ''ask''), sample_http (Some is_done)) \<and>
   fst (HTTP_send (sample_http (Some is_done)) ''ask'') \<noteq> Inl ConnectionError \<and>
   fst (HTTP_send (snd (HTTP_close (connected_http (Some is_done)) None)) ''ask'')
     \<noteq> Inl ConnectionError \<and>
   MQTT_send (sample_mqtt (Some is_done)) ''ask'' sent exact_sub 0 []
     = (Some (Inl ConnectionError), sample_mqtt (Some is_done)) \<and>
   WebSocket_send (sample_ws (Some is_done)) ''ask'' sent loads_text []
     = (Some (Inl ConnectionError), sample_ws (Some is_done))"
  by (simp add: sample_defs HTTP_send_def MQTT_send_def WebSocket_send_def)

subsection \<open>C6: a final message and the deadline in one iteration\<close>

text \<open>
  Claim C6 says that whenever a final message is available in the iteration in which the
  deadline has elapsed, the exchange completes. It fails when the final message is not at
  the front of the buffer: an iteration pops one message. Here the call is still waiting
  after the first poll; the second poll, at clock 31 with a timeout of 30, finds \<open>b\<close> and
  \<open>done\<close>, pops \<open>b\<close> and raises \<open>TimeoutError\<close>, leaving \<open>done\<close> in the buffer.
\<close>

theorem C6_final_message_behind_another_counterexample:
  "mqtt_callback (connected_mqtt (Some is_done)) = Some is_done \<and>
   mqtt_timeout (connected_mqtt (Some is_done)) = 30 \<and>
   MQTT_send (connected_mqtt (Some is_done)) ''ask'' sent exact_sub 0 [Poll [''a''] 10]
     = (None, connected_mqtt (Some is_done)) \<and>
   is_done ''done'' \<and>
   MQTT_send (connected_mqtt (Some is_done)) ''ask'' sent exact_sub 0
       [Poll [''a''] 10, Poll [''b'', ''done''] 31]
     = (Some (Inl TimeoutError), (connected_mqtt (Some is_done))\<lparr>mqtt_messages := [''done'']\<rparr>)"
  by (simp add: sample_defs MQTT_send_def)

text \<open>
  Claim C6, amended. In an iteration of the streaming loop of \<open>MQTT.send\<close>, one message,
  the one at the front of the buffer, is popped and the callback applied before the
  clock is read. So when the call is still waiting after the polls \<open>pre\<close> and the next
  poll's clock is beyond the deadline: if the message at the front is final, the call
  returns everything collected, ending with that message; if it is not, the call raises
  \<open>TimeoutError\<close>, whatever lies behind it in the buffer.
\<close>

theorem C6_final_message_wins_over_deadline:
  "(mqtt_client s = Some c \<and> publish data = None \<and> mqtt_callback s = Some cb \<and>
    MQTT_send s data publish float_sub start pre = (None, s') \<and>
    mqtt_messages s' @ arrived = msg # rest \<and> cb msg \<and>
    mqtt_timeout s < float_sub now start \<longrightarrow>
    (\<exists>rs. MQTT_send s data publish float_sub start (pre @ Poll arrived now # post)
             = (Some (Inr (Sequence (rs @ [msg]))), s\<lparr>mqtt_messages := rest\<rparr>) \<and>
          rs @ msg # rest = mqtt_messages s @ concat (map poll_arrived pre) @ arrived)) \<and>
   (mqtt_client s = Some c \<and> publish data = None \<and> mqtt_callback s = Some cb \<and>
    MQTT_send s data publish float_sub start pre = (None, s') \<and>
    mqtt_messages s' @ arrived = msg # rest \<and> \<not> cb msg \<and>
    mqtt_timeout s < float_sub now start \<longrightarrow>
    MQTT_send s data publish float_sub start (pre @ Poll arrived now # post)
      = (Some (Inl TimeoutError), s\<lparr>mqtt_messages := rest\<rparr>))"
proof -
  have step: "\<exists>rs buf. poll_stream cb float_sub start (mqtt_timeout s) [] (mqtt_messages s) pre
                 = (None, rs, buf) \<and> buf @ arrived = msg # rest"
    if conn: "mqtt_client s = Some c" and pub: "publish data = None"
      and cb: "mqtt_callback s = Some cb"
      and run: "MQTT_send s data publish float_sub start pre = (None, s')"
      and head: "mqtt_messages s' @ arrived = msg # rest"
  proof -
    obtain o1 rs buf where
      loop: "poll_stream cb float_sub start (mqtt_timeout s) [] (mqtt_messages s) pre
               = (o1, rs, buf)"
      by (cases "poll_stream cb float_sub start (mqtt_timeout s) [] (mqtt_messages s) pre")
    from run loop have "o1 = None" and "s' = s\<lparr>mqtt_messages := buf\<rparr>"
      by (simp_all add: MQTT_send_def conn pub cb)
    with loop head show ?thesis by simp
  qed
  show ?thesis
  proof (intro conjI impI)
    assume a: "mqtt_client s = Some c \<and> publish data = None \<and> mqtt_callback s = Some cb \<and>
      MQTT_send s data publish float_sub start pre = (None, s') \<and>
      mqtt_messages s' @ arrived = msg # rest \<and> cb msg \<and>
      mqtt_timeout s < float_sub now start"
    then have conn: "mqtt_client s = Some c" and pub: "publish data = None"
      and cb: "mqtt_callback s = Some cb" and final: "cb msg"
      by simp_all
    from a step obtain rs buf where
      pre: "poll_stream cb float_sub start (mqtt_timeout s) [] (mqtt_messages s) pre
              = (None, rs, buf)"
      and head: "buf @ arrived = msg # rest"
      by blast
    have "poll_stream cb float_sub start (mqtt_timeout s) [] (mqtt_messages s)
            (pre @ Poll arrived now # post)
          = (Some (Inr (Sequence (rs @ [msg]))), rs @ [msg], rest)"
      using head final by (simp add: poll_stream_None_append [OF pre])
    then have "MQTT_send s data publish float_sub start (pre @ Poll arrived now # post)
              = (Some (Inr (Sequence (rs @ [msg]))), s\<lparr>mqtt_messages := rest\<rparr>)"
      by (simp add: MQTT_send_def conn pub cb)
    moreover have "rs @ msg # rest = mqtt_messages s @ concat (map poll_arrived pre) @ arrived"
    proof -
      from head have "rs @ msg # rest = (rs @ buf) @ arrived" by simp
      also from poll_stream_None_buffer [OF pre]
      have "rs @ buf = mqtt_messages s @ concat (map poll_arrived pre)" by simp
      finally show ?thesis by simp
    qed
    ultimately show "\<exists>rs. MQTT_send s data publish float_sub start (pre @ Poll arrived now # post)
              = (Some (Inr (Sequence (rs @ [msg]))), s\<lparr>mqtt_messages := rest\<rparr>) \<and>
           rs @ msg # rest = mqtt_messages s @ concat (map poll_arrived pre) @ arrived"
      by blast
  next
    assume a: "mqtt_client s = Some c \<and> publish data = None \<and> mqtt_callback s = Some cb \<and>
      MQTT_send s data publish float_sub start pre = (None, s') \<and>
      mqtt_messages s' @ arrived = msg # rest \<and> \<not> cb msg \<and>
      mqtt_timeout s < float_sub now start"
    then have conn: "mqtt_client s = Some c" and pub: "publish data = None"
      and cb: "mqtt_callback s = Some cb" and other: "\<not> cb msg"
      and late: "mqtt_timeout s < float_sub now start"
      by simp_all
    from a step obtain rs buf where
      pre: "poll_stream cb float_sub start (mqtt_timeout s) [] (mqtt_messages s) pre
              = (None, rs, buf)"
      and head: "buf @ arrived = msg # rest"
      by blast
    have "poll_stream cb float_sub start (mqtt_timeout s) [] (mqtt_messages s)
            (pre @ Poll arrived now # post)
          = (Some (Inl TimeoutError), rs @ [msg], rest)"
      using head other late by (simp add: poll_stream_None_append [OF pre])
    then show "MQTT_send s data publish float_sub start (pre @ Poll arrived now # post)
              = (Some (Inl TimeoutError), s\<lparr>mqtt_messages := rest\<rparr>)"
      by (simp add: MQTT_send_def conn pub cb)
  qed
qed

text \<open>
  Claim C6, amended, two runs that are still waiting after the polls at clocks 10 and 30,
  with a timeout of 30: the poll at clock 31 finds \<open>done\<close> at the front and the call
  returns; it finds \<open>c\<close> in front of \<open>done\<close> and the call raises.
\<close>

theorem C6_final_message_wins_over_deadline_witness:
  "mqtt_client (connected_mqtt (Some is_done)) = Some 1 \<and> sent ''ask'' = None \<and>
   mqtt_callback (connected_mqtt (Some is_done)) = Some is_done \<and>
   MQTT_send (connected_mqtt (Some is_done)) ''ask'' sent exact_sub 0
       [Poll [''a''] 10, Poll [''b''] 30]
     = (None, connected_mqtt (Some is_done)) \<and>
   mqtt_messages (connected_mqtt (Some is_done)) @ [''done''] = ''done'' # [] \<and>
   is_done ''done'' \<and> mqtt_timeout (connected_mqtt (Some is_done)) < exact_sub 31 0 \<and>
   MQTT_send (connected_mqtt (Some is_done)) ''ask'' sent exact_sub 0
       ([Poll [''a''] 10, Poll [''b''] 30] @ Poll [''done''] 31 # [])
     = (Some (Inr (Sequence [''a'', ''b'', ''done''])), connected_mqtt (Some is_done)) \<and>
   mqtt_messages (connected_mqtt (Some is_done)) @ [''c'', ''done''] = ''c'' # [''done''] \<and>
   \<not> is_done ''c'' \<and>
   MQTT_send (connected_mqtt (Some is_done)) ''ask'' sent exact_sub 0
       ([Poll [''a''] 10, Poll [''b''] 30] @ Poll [''c'', ''done''] 31 # [])
     = (Some (Inl TimeoutError), (connected_mqtt (Some is_done))\<lparr>mqtt_messages := [''done'']\<rparr>)"
proof -
  have conn: "mqtt_client (connected_mqtt (Some is_done)) = Some 1"
    and cb: "mqtt_callback (connected_mqtt (Some is_done)) = Some is_done"
    and buf: "mqtt_messages (connected_mqtt (Some is_done)) = []"
    and late: "mqtt_timeout (connected_mqtt (Some is_done)) < exact_sub 31 0"
    by (simp_all add: sample_defs)
  have pub: "sent ''ask'' = None" and final: "is_done ''done''" and other: "\<not> is_done ''c''"
    by (simp_all add: sent_def is_done_def)
  have waiting: "MQTT_send (connected_mqtt (Some is_done)) ''ask'' sent exact_sub 0
       [Poll [''a''] 10, Poll [''b''] 30] = (None, connected_mqtt (Some is_done))"
    by (simp add: sample_defs MQTT_send_def)
  note inst1 = C6_final_message_wins_over_deadline
    [where s = "connected_mqtt (Some is_done)" and c = 1 and publish = sent
       and data = "''ask''" and cb = is_done and float_sub = exact_sub and start = 0
       and pre = "[Poll [''a''] 10, Poll [''b''] 30]" and s' = "connected_mqtt (Some is_done)"
       and arrived = "[''done'']" and msg = "''done''" and rest = "[]" and now = 31
       and post = "[]"]
  note inst2 = C6_final_message_wins_over_deadline
    [where s = "connected_mqtt (Some is_done)" and c = 1 and publish = sent
       and data = "''ask''" and cb = is_done and float_sub = exact_sub and start = 0
       and pre = "[Poll [''a''] 10, Poll [''b''] 30]" and s' = "connected_mqtt (Some is_done)"
       and arrived = "[''c'', ''done'']" and msg = "''c''" and rest = "[''done'']" and now = 31
       and post = "[]"]
  from inst1 conn pub cb waiting buf final late
  have r1: "MQTT_send (connected_mqtt (Some is_done)) ''ask'' sent exact_sub 0
       ([Poll [''a''] 10, Poll [''b''] 30] @ Poll [''done''] 31 # [])
     = (Some (Inr (Sequence [''a'', ''b'', ''done''])), connected_mqtt (Some is_done))"
    by (simp add: sample_defs MQTT_send_def)
  from inst2 conn pub cb waiting buf other late
  have r2: "MQTT_send (connected_mqtt (Some is_done)) ''ask'' sent exact_sub 0
       ([Poll [''a''] 10, Poll [''b''] 30] @ Poll [''c'', ''done''] 31 # [])
     = (Some (Inl TimeoutError), (connected_mqtt (Some is_done))\<lparr>mqtt_messages := [''done'']\<rparr>)"
    by simp
  from conn pub cb waiting buf final late other r1 r2 show ?thesis by simp
qed

subsection \<open>C7: the buffer after \<open>close\<close>\<close>

text \<open>
  Claim C7 says that after \<open>MQTT.close\<close> the buffer holds no message. It fails: a
  message that the listener appended and no \<open>send\<close> consumed is still in \<open>messages\<close>
  after \<open>close\<close>.
\<close>

theorem C7_close_keeps_buffer_counterexample:
  "mqtt_messages (MQTT_on_message (connected_mqtt None) ''late'') = [''late''] \<and>
   MQTT_close (MQTT_on_message (connected_mqtt None) ''late'') None
     = (Inr (), (sample_mqtt None)\<lparr>mqtt_messages := [''late'']\<rparr>) \<and>
   mqtt_messages (snd (MQTT_close (MQTT_on_message (connected_mqtt None) ''late'') None)) \<noteq> []"
  by (simp add: sample_defs MQTT_on_message_def MQTT_close_def)

text \<open>
  Claim C7, amended. \<open>MQTT.close\<close> leaves \<open>messages\<close> as it is; a \<open>close\<close> that returns
  has changed \<open>client\<close> to \<open>None\<close> and nothing else.
\<close>

theorem C7_close_leaves_messages_unchanged:
  "mqtt_messages (snd (MQTT_close s lib)) = mqtt_messages s \<and>
   (fst (MQTT_close s lib) = Inr () \<longrightarrow> snd (MQTT_close s lib) = s\<lparr>mqtt_client := None\<rparr>)"
  by (simp add: MQTT_close_def split: option.splits)

text \<open>
  Claim C7, amended, on the object of the counterexample.
\<close>

theorem C7_close_leaves_messages_unchanged_witness:
  "fst (MQTT_close (MQTT_on_message (connected_mqtt None) ''late'') None) = Inr () \<and>
   mqtt_messages (snd (MQTT_close (MQTT_on_message (connected_mqtt None) ''late'') None))
     = [''late''] \<and>
   mqtt_client (snd (MQTT_close (MQTT_on_message (connected_mqtt None) ''late'') None)) = None"
  using C7_close_leaves_messages_unchanged [of "MQTT_on_message (connected_mqtt None) ''late''" None]
  by (simp add: sample_defs MQTT_on_message_def MQTT_close_def)

subsection \<open>C8: \<open>connect\<close> on a connected object\<close>

text \<open>
  Claim C8 says that \<open>connect\<close> on a connected transport is a caller error. It fails for
  all three variants: on a connected object, \<open>connect\<close> returns normally with the new
  connection object in place of the old one.
\<close>

theorem C8_connect_twice_no_error_counterexample:
  "mqtt_client (connected_mqtt None) = Some 1 \<and>
   MQTT_connect (connected_mqtt None) 2 None
     = (Inr (), (connected_mqtt None)\<lparr>mqtt_client := Some 2\<rparr>) \<and>
   ws_ws (connected_ws None) = Some 1 \<and>
   WebSocket_connect (connected_ws None) (Inr 2) = (Inr (), (connected_ws None)\<lparr>ws_ws := Some 2\<rparr>) \<and>
   http_client (connected_http None) = Some 1 \<and>
   HTTP_connect (connected_http None) (Inr 2)
     = (Inr (), (connected_http None)\<lparr>http_client := Some 2\<rparr>)"
  by (simp add: sample_defs)

text \<open>
  Claim C8, amended. \<open>connect\<close> does not look at the connection state: on a connected
  object it returns normally whenever the library calls do, and stores the new
  connection object; whether it raises is the same as on an unconnected object.
\<close>

theorem C8_connect_ignores_connection_state:
  "MQTT_connect (s\<lparr>mqtt_client := Some old\<rparr>) fresh None
     = (Inr (), s\<lparr>mqtt_client := Some fresh\<rparr>) \<and>
   WebSocket_connect (w\<lparr>ws_ws := Some old\<rparr>) (Inr fresh) = (Inr (), w\<lparr>ws_ws := Some fresh\<rparr>) \<and>
   HTTP_connect (h\<lparr>http_client := Some old\<rparr>) (Inr fresh)
     = (Inr (), h\<lparr>http_client := Some fresh\<rparr>) \<and>
   fst (MQTT_connect (s\<lparr>mqtt_client := Some old\<rparr>) fresh net)
     = fst (MQTT_connect (s\<lparr>mqtt_client := None\<rparr>) fresh net) \<and>
   fst (WebSocket_connect (w\<lparr>ws_ws := Some old\<rparr>) dial)
     = fst (WebSocket_connect (w\<lparr>ws_ws := None\<rparr>) dial) \<and>
   fst (HTTP_connect (h\<lparr>http_client := Some old\<rparr>) built)
     = fst (HTTP_connect (h\<lparr>http_client := None\<rparr>) built)"
  by (simp add: MQTT_connect_def WebSocket_connect_def HTTP_connect_def
           split: option.splits sum.splits)

subsection \<open>C9: \<open>close\<close> is idempotent\<close>

text \<open>
  Claim C9. For every variant, \<open>close\<close> on an object that was never connected returns
  normally and changes nothing, whatever the library would do; and after a \<open>close\<close> that
  returned, a second \<open>close\<close> returns normally and changes nothing.
\<close>

theorem C9_close_idempotent:
  "(mqtt_client s = None \<longrightarrow> MQTT_close s lib = (Inr (), s)) \<and>
   (ws_ws w = None \<longrightarrow> WebSocket_close w lib = (Inr (), w)) \<and>
   (http_client h = None \<longrightarrow> HTTP_close h lib = (Inr (), h)) \<and>
   (MQTT_close s first = (Inr (), s') \<longrightarrow> MQTT_close s' lib = (Inr (), s')) \<and>
   (WebSocket_close w first = (Inr (), w') \<longrightarrow> WebSocket_close w' lib = (Inr (), w')) \<and>
   (HTTP_close h first = (Inr (), h') \<longrightarrow> HTTP_close h' lib = (Inr (), h'))"
proof (intro conjI impI)
  show "MQTT_close s lib = (Inr (), s)" if "mqtt_client s = None"
    using that by (simp add: MQTT_close_def)
  show "WebSocket_close w lib = (Inr (), w)" if "ws_ws w = None"
    using that by (simp add: WebSocket_close_def)
  show "HTTP_close h lib = (Inr (), h)" if "http_client h = None"
    using that by (simp add: HTTP_close_def)
  show "MQTT_close s' lib = (Inr (), s')" if "MQTT_close s first = (Inr (), s')"
  proof -
    from that have "mqtt_client s' = None"
      by (auto simp: MQTT_close_def split: option.splits)
    then show ?thesis by (simp add: MQTT_close_def)
  qed
  show "WebSocket_close w' lib = (Inr (), w')" if "WebSocket_close w first = (Inr (), w')"
  proof -
    from that have "ws_ws w' = None"
      by (auto simp: WebSocket_close_def split: option.splits)
    then show ?thesis by (simp add: WebSocket_close_def)
  qed
  show "HTTP_close h' lib = (Inr (), h')" if "HTTP_close h first = (Inr (), h')"
  proof -
    from that have "http_client h' = None"
      by (auto simp: HTTP_close_def split: option.splits)
    then show ?thesis by (simp add: HTTP_close_def)
  qed
qed

text \<open>
  Claim C9, on the sample objects: never connected, and closed once.
\<close>

theorem C9_close_idempotent_witness:
  "mqtt_client (sample_mqtt None) = None \<and>
   MQTT_close (sample_mqtt None) (Some (LibraryError ''OSError'')) = (Inr (), sample_mqtt None) \<and>
   ws_ws (sample_ws None) = None \<and>
   WebSocket_close (sample_ws None) (Some (LibraryError ''OSError'')) = (Inr (), sample_ws None) \<and>
   http_client (sample_http None) = None \<and>
   HTTP_close (sample_http None) (Some (LibraryError ''OSError'')) = (Inr (), sample_http None) \<and>
   MQTT_close (connected_mqtt None) None = (Inr (), sample_mqtt None) \<and>
   WebSocket_close (connected_ws None) None = (Inr (), sample_ws None) \<and>
   HTTP_close (connected_http None) None = (Inr (), sample_http None)"
proof -
  have never: "mqtt_client (sample_mqtt None) = None" "ws_ws (sample_ws None) = None"
    "http_client (sample_http None) = None"
    by (simp_all add: sample_mqtt_def MQTT_init_def sample_ws_def WebSocket_init_def
          sample_http_def)
  have once: "MQTT_close (connected_mqtt None) None = (Inr (), sample_mqtt None)"
    "WebSocket_close (connected_ws None) None = (Inr (), sample_ws None)"
    "HTTP_close (connected_http None) None = (Inr (), sample_http None)"
    by (simp_all add: sample_defs MQTT_close_def WebSocket_close_def HTTP_close_def)
  from never once
    C9_close_idempotent
      [of "sample_mqtt None" "Some (LibraryError ''OSError'')" "sample_ws None" "sample_http None"]
    C9_close_idempotent
      [of "connected_mqtt None" "Some (LibraryError ''OSError'')" "connected_ws None"
          "connected_http None" None "sample_mqtt None" "sample_ws None" "sample_http None"]
  show ?thesis by blast
qed

subsection \<open>C10: the checks of \<open>HTTP.__init__\<close>\<close>

text \<open>
  Claim C10. \<open>HTTP.__init__\<close> raises \<open>TypeError\<close> when \<open>base_url\<close> is \<open>None\<close>; otherwise it
  raises \<open>ValueError\<close> when \<open>timeout \<le> 0\<close>; otherwise it stores \<open>base_url\<close>, \<open>endpoint\<close>,
  \<open>timeout\<close> and \<open>ended\<close> unchanged and sets \<open>client = None\<close>. The check of \<open>base_url\<close>
  comes first in the source.
\<close>

theorem C10_http_init_validates:
  "(base_url = None \<longrightarrow> HTTP_init ended base_url endpoint timeout = Inl TypeError) \<and>
   (base_url \<noteq> None \<and> timeout \<le> 0 \<longrightarrow>
      HTTP_init ended base_url endpoint timeout = Inl ValueError) \<and>
   (base_url \<noteq> None \<and> 0 < timeout \<longrightarrow>
      HTTP_init ended base_url endpoint timeout
        = Inr \<lparr>http_base_url = base_url, http_timeout = timeout, http_endpoint = endpoint,
               http_ended = ended, http_client = None\<rparr>)"
  by (simp add: HTTP_init_def)

text \<open>
  Claim C10, the three outcomes on concrete arguments.
\<close>

theorem C10_http_init_validates_witness:
  "HTTP_init (Some is_done) None ''/chat'' 30 = Inl TypeError \<and>
   HTTP_init (Some is_done) (Some ''http://127.0.0.1:8000'') ''/chat'' 0 = Inl ValueError \<and>
   HTTP_init (Some is_done) (Some ''http://127.0.0.1:8000'') ''/chat'' (- 5) = Inl ValueError \<and>
   HTTP_init (Some is_done) (Some ''http://127.0.0.1:8000'') ''/chat'' 30
     = Inr (sample_http (Some is_done))"
  using C10_http_init_validates
      [where base_url = None and ended = "Some is_done" and endpoint = "''/chat''" and timeout = 30]
    C10_http_init_validates
      [where base_url = "Some ''http://127.0.0.1:8000''" and ended = "Some is_done"
         and endpoint = "''/chat''" and timeout = 0]
    C10_http_init_validates
      [where base_url = "Some ''http://127.0.0.1:8000''" and ended = "Some is_done"
         and endpoint = "''/chat''" and timeout = "- 5"]
    C10_http_init_validates
      [where base_url = "Some ''http://127.0.0.1:8000''" and ended = "Some is_done"
         and endpoint = "''/chat''" and timeout = 30]
  by (simp add: sample_defs)

end
